theory Spec2Isabelle
  imports Complex_Main "HOL-Library.Log_Nat"
begin

section \<open>Python values used by \<open>app/draft_board.py\<close>\<close>

text \<open>
  A Python \<open>str\<close> is a sequence of Unicode code points. Two of the characters the program
  writes (the middle dot U+00B7 and the em dash U+2014) are not ASCII, so a string is
  modelled as the list of its code points.
\<close>

type_synonym ustr = "nat list"

definition ascii :: "string \<Rightarrow> ustr" where
  "ascii s = map of_char s"

definition newline :: nat where "newline = 10"
definition middle_dot :: nat where "middle_dot = 183"
definition em_dash :: nat where "em_dash = 8212"

text \<open>The exceptions that the modelled code can raise, with the interpreter's message.\<close>

datatype error =
    KeyError string
  | ValueError string
  | OverflowError string
  | ZeroDivisionError string

text \<open>\<open>str(n)\<close> for a Python \<open>int\<close>: decimal digits, a minus sign for negatives.\<close>

fun str_nat :: "nat \<Rightarrow> ustr" where
  "str_nat n = (if n < 10 then [48 + n] else str_nat (n div 10) @ [48 + n mod 10])"

declare str_nat.simps [simp del]

definition str_int :: "int \<Rightarrow> ustr" where
  "str_int i = (if i < 0 then 45 # str_nat (nat (- i)) else str_nat (nat i))"

subsection \<open>Binary64 floating point\<close>

text \<open>
  A Python \<open>float\<close> is an IEEE 754 binary64 number. A finite one is modelled by the
  rational it denotes; the sign of zero is not represented (it cannot reach the output of
  \<open>rank_color\<close>: \<open>1 - t\<close> is \<open>+0.0\<close> whenever it is zero, and \<open>120 * (1 - t)\<close> never
  underflows). Every arithmetic operation returns the exact result rounded to the nearest
  representable number, ties to the even significand.
\<close>

datatype pyfloat = Finite rat | PosInf | NegInf | NaN

definition pow2 :: "int \<Rightarrow> rat" where
  "pow2 e = (if 0 \<le> e then 2 ^ nat e else 1 / 2 ^ nat (- e))"

definition round_half_even :: "rat \<Rightarrow> int" where
  "round_half_even x =
     (let f = \<lfloor>x\<rfloor>; d = x - of_int f
      in if d < 1 / 2 then f else if 1 / 2 < d then f + 1
         else if even f then f else f + 1)"

text \<open>\<open>ilog2 x\<close> is the binary exponent of a positive rational: \<open>2^e \<le> x < 2^(e+1)\<close>.\<close>

definition ilog2 :: "rat \<Rightarrow> int" where
  "ilog2 x = (case quotient_of x of (p, q) \<Rightarrow>
     (let d = bitlen p - bitlen q in if pow2 d \<le> x then d else d - 1))"

text \<open>
  Rounding to 53 significant bits, with the subnormal spacing \<open>2^-1074\<close> below
  \<open>2^-1022\<close> and no bound on the exponent above; the callers test for overflow.
\<close>

definition double_round :: "rat \<Rightarrow> rat" where
  "double_round x =
     (if x = 0 then 0
      else let e = max (ilog2 \<bar>x\<bar>) (- 1022); u = pow2 (e - 52)
           in of_int (round_half_even (x / u)) * u)"

text \<open>
  A rounded value is too large for a binary64 number when its binary exponent exceeds
  1023, that is when its magnitude is at least \<open>2^1024\<close>.
\<close>

definition overflows :: "rat \<Rightarrow> bool" where
  "overflows r = (r \<noteq> 0 \<and> 1024 \<le> ilog2 \<bar>r\<bar>)"

definition float_of :: "rat \<Rightarrow> pyfloat" where
  "float_of x =
     (let r = double_round x
      in if overflows r then (if 0 < r then PosInf else NegInf) else Finite r)"

text \<open>
  \<open>a / b\<close> on two Python \<open>int\<close>s: the correctly rounded quotient; a zero divisor and a
  quotient too large for a float are exceptions.
\<close>

definition int_true_div :: "int \<Rightarrow> int \<Rightarrow> error + pyfloat" where
  "int_true_div a b =
     (if b = 0 then Inl (ZeroDivisionError ''division by zero'')
      else let r = double_round (of_int a / of_int b)
           in if overflows r
              then Inl (OverflowError ''integer division result too large for a float'')
              else Inr (Finite r))"

text \<open>\<open>x - y\<close> and \<open>x * y\<close> on floats: no exception, overflow gives an infinity.\<close>

fun float_sub :: "pyfloat \<Rightarrow> pyfloat \<Rightarrow> pyfloat" where
  "float_sub (Finite a) (Finite b) = float_of (a - b)"
| "float_sub NaN _ = NaN"
| "float_sub _ NaN = NaN"
| "float_sub PosInf PosInf = NaN"
| "float_sub NegInf NegInf = NaN"
| "float_sub PosInf _ = PosInf"
| "float_sub NegInf _ = NegInf"
| "float_sub (Finite a) PosInf = NegInf"
| "float_sub (Finite a) NegInf = PosInf"

fun float_mul :: "pyfloat \<Rightarrow> pyfloat \<Rightarrow> pyfloat" where
  "float_mul (Finite a) (Finite b) = float_of (a * b)"
| "float_mul NaN _ = NaN"
| "float_mul _ NaN = NaN"
| "float_mul (Finite a) PosInf = (if a = 0 then NaN else if 0 < a then PosInf else NegInf)"
| "float_mul (Finite a) NegInf = (if a = 0 then NaN else if 0 < a then NegInf else PosInf)"
| "float_mul PosInf (Finite b) = (if b = 0 then NaN else if 0 < b then PosInf else NegInf)"
| "float_mul NegInf (Finite b) = (if b = 0 then NaN else if 0 < b then NegInf else PosInf)"
| "float_mul PosInf PosInf = PosInf"
| "float_mul NegInf NegInf = PosInf"
| "float_mul PosInf NegInf = NegInf"
| "float_mul NegInf PosInf = NegInf"

text \<open>
  The format specification \<open>.0f\<close>: the exact value rounded to an integer, ties to even;
  the sign is printed for every negative value, also when the digits are \<open>0\<close>.
\<close>

fun format_0f :: "pyfloat \<Rightarrow> ustr" where
  "format_0f (Finite x) =
     (if x < 0 then 45 # str_nat (nat (round_half_even (- x)))
      else str_nat (nat (round_half_even x)))"
| "format_0f PosInf = ascii ''inf''"
| "format_0f NegInf = ascii ''-inf''"
| "format_0f NaN = ascii ''nan''"

text \<open>The comparison \<open>x < y\<close> on floats; it is false whenever an operand is NaN.\<close>

fun float_less :: "pyfloat \<Rightarrow> pyfloat \<Rightarrow> bool" where
  "float_less (Finite a) (Finite b) = (a < b)"
| "float_less NaN _ = False"
| "float_less _ NaN = False"
| "float_less _ NegInf = False"
| "float_less NegInf _ = True"
| "float_less PosInf _ = False"
| "float_less (Finite a) PosInf = True"

section \<open>Color helpers\<close>

text \<open>
  \<open>rank_hue\<close> is the value of the local \<open>hue\<close> of \<open>rank_color\<close> (its lines
  \<open>t = (rank - 1) / max(total - 1, 1)\<close> and \<open>hue = 120 * (1 - t)\<close>); \<open>rank_color\<close> is
  the function itself, \<open>None\<close> being the absent rank. The parameter \<open>total\<close> is
  written \<open>total_slots\<close>, since \<open>total\<close> is a constant of HOL.
\<close>

definition rank_hue :: "int \<Rightarrow> int \<Rightarrow> error + pyfloat" where
  "rank_hue rank total_slots =
     (case int_true_div (rank - 1) (max (total_slots - 1) 1) of
        Inl e \<Rightarrow> Inl e
      | Inr t \<Rightarrow> Inr (float_mul (Finite 120) (float_sub (Finite 1) t)))"

definition rank_color :: "int option \<Rightarrow> int \<Rightarrow> error + (ustr \<times> ustr)" where
  "rank_color rank total_slots =
     (case rank of
        None \<Rightarrow> Inr (ascii ''#6c757d'', ascii ''#fff'')
      | Some r \<Rightarrow>
          (case rank_hue r total_slots of
             Inl e \<Rightarrow> Inl e
           | Inr hue \<Rightarrow>
               Inr (ascii ''hsl('' @ format_0f hue @ ascii '', 75%, 38%)'', ascii ''#fff'')))"

section \<open>Rounding to binary64: monotonicity and error bounds\<close>

lemma pow2_powi: "pow2 e = 2 powi e"
  by (simp add: pow2_def power_int_def inverse_eq_divide power_divide)






lemma pow2_nat: "pow2 (int n) = 2 ^ n"
  by (simp add: pow2_def)


lemma pow2_diff: "pow2 (a - b) = pow2 a / pow2 b"
  by (simp add: pow2_powi power_int_diff)

























lemma double_round_succ1: "double_round (1 + 1 / 2 ^ 52) = 1 + 1 / 2 ^ 52" by code_simp
lemma double_round_eps: "double_round (- (1 / 2 ^ 52)) = - (1 / 2 ^ 52)" by code_simp
lemma double_round_120eps: "double_round (- (120 / 2 ^ 52)) = - (120 / 2 ^ 52)" by code_simp








section \<open>Properties of the color helpers\<close>

text \<open>
  Claim C8. For every value of the total number of slots, \<open>rank_color\<close> applied to an
  absent rank returns the same fixed neutral pair: the mid-gray background \<open>#6c757d\<close> and
  the white foreground \<open>#fff\<close>.
\<close>

theorem rank_color_absent_rank:
  "rank_color None total_slots = Inr (ascii ''#6c757d'', ascii ''#fff'')"
  by (simp add: rank_color_def)
















end
